theory Spec2Isabelle
  imports Complex_Main
begin

section \<open>JSON values\<close>

text \<open>
  The values that \<^verbatim>\<open>JSON.parse\<close> can return and that \<^verbatim>\<open>res.json\<close> serialises.
  An object is an association list, so that the order of its keys is kept.
\<close>

datatype json =
    JNull
  | JBool bool
  | JNumber real
  | JString string
  | JArray "json list"
  | JObject "(string \<times> json) list"

text \<open>
  JavaScript's \<^verbatim>\<open>typeof\<close> on such a value: \<^verbatim>\<open>null\<close>, arrays and objects are all
  \<^verbatim>\<open>"object"\<close>.
\<close>

fun typeof :: "json \<Rightarrow> string" where
  "typeof JNull = ''object''"
| "typeof (JBool b) = ''boolean''"
| "typeof (JNumber n) = ''number''"
| "typeof (JString s) = ''string''"
| "typeof (JArray xs) = ''object''"
| "typeof (JObject kvs) = ''object''"

section \<open>The custom format \<^verbatim>\<open>JSON\<close> (app.ts, lines 75 to 84)\<close>

text \<open>
  \<^verbatim>\<open>validate: (x) => { try { return typeof JSON.parse(x) == "object"; } catch { return false; } }\<close>

  \<^verbatim>\<open>JSON.parse\<close> is a built-in of the language and is taken as a parameter: \<open>None\<close> is the
  thrown \<^verbatim>\<open>SyntaxError\<close>, \<open>Some v\<close> the parsed value.
\<close>

definition JSON_format_validate :: "(string \<Rightarrow> json option) \<Rightarrow> string \<Rightarrow> bool" where
  "JSON_format_validate JSON_parse x =
     (case JSON_parse x of
        None \<Rightarrow> False
      | Some v \<Rightarrow> typeof v = ''object'')"

section \<open>Requests, operations and the context handed to a handler\<close>

text \<open>What a handler has written with \<^verbatim>\<open>res.status(s).json(b)\<close>, once it is sent.\<close>

record Response =
  status :: nat
  body :: json

text \<open>
  A thrown exception or a rejected promise. \<open>TypeError\<close> is what reading a property of
  \<^verbatim>\<open>undefined\<close> throws, \<open>RangeError\<close> what writing a response with a status it cannot
  carry throws; \<open>Thrown\<close> is any fault that a custom handler raises.
\<close>

datatype fault = TypeError | RangeError | Thrown string

text \<open>
  A JavaScript \<^verbatim>\<open>number\<close>, the type of the \<^verbatim>\<open>status\<close> that the backend's mock returns:
  a finite value, \<^verbatim>\<open>NaN\<close> or an infinity.
\<close>

datatype js_number = Num real | NaN | PosInfinity | NegInfinity

text \<open>
  \<^verbatim>\<open>res.status(status).json(body)\<close>. A response carries an integer status from 100 to 999;
  on any other number the write throws and the handler's promise rejects.
\<close>

definition respond :: "js_number \<Rightarrow> json \<Rightarrow> fault + Response" where
  "respond s b =
     (case s of
        Num r \<Rightarrow>
          if r = of_int \<lfloor>r\<rfloor> \<and> 100 \<le> r \<and> r \<le> 999
          then Inr \<lparr>status = nat \<lfloor>r\<rfloor>, body = b\<rparr>
          else Inl RangeError
      | NaN \<Rightarrow> Inl RangeError
      | PosInfinity \<Rightarrow> Inl RangeError
      | NegInfinity \<Rightarrow> Inl RangeError)"

text \<open>The incoming request, as the transport hands it over.\<close>

record Request =
  req_method :: string
  req_path :: string
  req_query :: "(string \<times> string) list"
  req_headers :: "(string \<times> string) list"
  req_body :: "json option"

text \<open>
  Modelled from the spec: the operation object \<^verbatim>\<open>c.operation\<close> belongs to the loaded API
  description and its type to the library, which are not among the sources. Section 3
  (OperationDescriptor) gives it an optional \<open>operationId\<close>, a method, a path pattern and
  example response payloads keyed by status code; section 4.5 speaks of the operation's
  documented default, here the status and the payload it documents, if any. Only
  \<open>operationId\<close> is read by app.ts.
\<close>

record Operation =
  operationId :: "string option"
  op_method :: string
  op_path :: string
  examples :: "(nat \<times> json) list"
  default_response :: "(nat \<times> json) option"

text \<open>\<^verbatim>\<open>c.validation\<close>: \<open>errors\<close> is \<^verbatim>\<open>null\<close> (\<open>None\<close>) or the list of violations.\<close>

record Validation =
  errors :: "json list option"

text \<open>
  The context \<^verbatim>\<open>c\<close> of a handler. \<^verbatim>\<open>c.operation\<close> and \<^verbatim>\<open>c.validation\<close> are
  \<^verbatim>\<open>undefined\<close> (\<open>None\<close>) until the request has been matched and validated.
  \<^verbatim>\<open>c.api\<close> is passed to the handlers that use it as a separate argument.
\<close>

record Context =
  request :: Request
  operation :: "Operation option"
  validation :: "Validation option"

section \<open>The three handlers of app.ts (lines 91 to 110)\<close>

text \<open>
  \<^verbatim>\<open>validationFail: async (c, req, res) => res.status(400).json({ err: c.validation.errors })\<close>

  The calls of \<^verbatim>\<open>console.log\<close> in the handlers write to the log only and are left out.
\<close>

definition validationFail :: "Context \<Rightarrow> fault + Response" where
  "validationFail c =
     (case validation c of
        None \<Rightarrow> Inl TypeError
      | Some v \<Rightarrow>
          respond (Num 400)
            (JObject [(''err'', case errors v of None \<Rightarrow> JNull | Some es \<Rightarrow> JArray es)]))"

text \<open>
  \<^verbatim>\<open>notFound: async (c, req, res) => res.status(404).json({ err: "not found" })\<close>
\<close>

definition notFound :: "Context \<Rightarrow> fault + Response" where
  "notFound c = respond (Num 404) (JObject [(''err'', JString ''not found'')])"

text \<open>
  \<^verbatim>\<open>
  notImplemented: async (c, req, res) => {
    const { status, mock } = c.operation.operationId
      ? c.api.mockResponseForOperation(c.operation.operationId)
      : { status: 500, mock: {} };
    return res.status(status).json(mock);
  }
  \<close>
  The condition is JavaScript truthiness: a missing and an empty \<open>operationId\<close> both take
  the second branch. \<^verbatim>\<open>c.api.mockResponseForOperation\<close> is the first argument; its
  \<^verbatim>\<open>status\<close> is a \<^verbatim>\<open>number\<close>, and the write rejects when the response cannot carry it.
\<close>

definition notImplemented ::
  "(string \<Rightarrow> js_number \<times> json) \<Rightarrow> Context \<Rightarrow> fault + Response" where
  "notImplemented mockResponseForOperation c =
     (case operation c of
        None \<Rightarrow> Inl TypeError
      | Some op \<Rightarrow>
          (let (status, mock) =
                 (case operationId op of
                    None \<Rightarrow> (Num 500, JObject [])
                  | Some oid \<Rightarrow>
                      if oid \<noteq> [] then mockResponseForOperation oid
                      else (Num 500, JObject []))
           in respond status mock))"

section \<open>The backend instance and the dispatch of a request\<close>

text \<open>
  Modelled from the spec: the result type of the library's matcher, which is not among the
  sources. Section 3 (MatchResult): either \<open>Matched\<close> with the operation and the extracted
  path parameters, or \<open>Unmatched\<close>, or \<open>AmbiguousMatch\<close> with the candidates.
\<close>

datatype MatchResult =
    Matched Operation "(string \<times> string) list"
  | Unmatched
  | AmbiguousMatch "Operation list"

text \<open>
  Modelled from the spec: the result type of the library's validator, which is not among
  the sources. Section 3 (ValidationOutcome): either \<open>Valid\<close> or \<open>Invalid\<close> with the
  ordered sequence of violations; they are the JSON values that the library puts into
  \<^verbatim>\<open>c.validation.errors\<close>.
\<close>

datatype ValidationOutcome = Valid | Invalid "json list"

text \<open>
  Modelled from the spec: the terminal states of the library's dispatcher, which is not
  among the sources. Section 4.6 names the four of them.
\<close>

datatype DispatcherState = NotFound | AmbiguousSpec | ValidationFailed | Resolved

type_synonym Handler = "Context \<Rightarrow> fault + Response"

text \<open>
  The parts of the \<^verbatim>\<open>OpenAPIBackend\<close> instance that the library provides. app.ts creates
  the instance and calls it; the library's code is not among the sources, so these are
  parameters: the matcher, the validator, \<^verbatim>\<open>mockResponseForOperation\<close> (it returns the
  pair of \<^verbatim>\<open>status\<close> and \<^verbatim>\<open>mock\<close>), and the body sent for an ambiguous specification,
  which section 6 of the specification leaves to the implementation.
\<close>

record Backend =
  matcher :: "Request \<Rightarrow> MatchResult"
  validator :: "Operation \<Rightarrow> Request \<Rightarrow> (string \<times> string) list \<Rightarrow> ValidationOutcome"
  mockResponseForOperation :: "string \<Rightarrow> js_number \<times> json"
  ambiguousBody :: json

text \<open>
  \<^verbatim>\<open>api.register({ Heartbeat: heartbeat })\<close> (app.ts, lines 118 to 120): the registry of
  custom handlers, by \<open>operationId\<close>. The handler \<^verbatim>\<open>heartbeat\<close> is imported from
  \<^verbatim>\<open>./handlers/heartbeat\<close>, which is not among the sources, and is a parameter.
\<close>

definition register ::
  "(string \<rightharpoonup> Handler) \<Rightarrow> (string \<times> Handler) list \<Rightarrow> (string \<rightharpoonup> Handler)" where
  "register registry hs = fold (\<lambda>(oid, h) m. m(oid \<mapsto> h)) hs registry"

definition app_registry :: "Handler \<Rightarrow> (string \<rightharpoonup> Handler)" where
  "app_registry heartbeat = register Map.empty [(''Heartbeat'', heartbeat)]"

text \<open>
  Modelled from the spec: the Response Resolver is part of the library's request handling,
  which is not among the sources. Section 4.5: if the registry has a custom handler for
  \<open>operation.operationId\<close>, invoke it with the validated request, and its return value is
  the result verbatim; otherwise synthesise a mock. The mock path is the handler
  \<open>notImplemented\<close> that app.ts installs for it.
\<close>

definition resolve ::
  "Backend \<Rightarrow> (string \<rightharpoonup> Handler) \<Rightarrow> Operation \<Rightarrow> Context \<Rightarrow> fault + Response" where
  "resolve lib registry op c =
     (case Option.bind (operationId op) registry of
        Some h \<Rightarrow> h c
      | None \<Rightarrow> notImplemented (mockResponseForOperation lib) c)"

text \<open>
  Modelled from the spec: \<^verbatim>\<open>api.handleRequest\<close> is the library's dispatcher, which is not
  among the sources. Section 4.6: the matcher's \<open>Unmatched\<close> ends in \<open>NotFound\<close>, its
  \<open>AmbiguousMatch\<close> in \<open>AmbiguousSpec\<close> (status 500, section 6), the validator's
  \<open>Invalid\<close> in \<open>ValidationFailed\<close>, and \<open>Valid\<close> in \<open>Resolved\<close> with the resolver's
  result. The handlers called for \<open>NotFound\<close> and \<open>ValidationFailed\<close> are those that
  app.ts installs under the names \<^verbatim>\<open>notFound\<close> and \<^verbatim>\<open>validationFail\<close>. A fault of a
  handler is the result \<open>Inl\<close> (section 7: it is not masked).
\<close>

definition handleRequest ::
  "Backend \<Rightarrow> (string \<rightharpoonup> Handler) \<Rightarrow> Request \<Rightarrow> fault + (DispatcherState \<times> Response)" where
  "handleRequest lib registry req =
     (case matcher lib req of
        Unmatched \<Rightarrow>
          map_sum id (Pair NotFound)
            (notFound \<lparr>request = req, operation = None, validation = None\<rparr>)
      | AmbiguousMatch candidates \<Rightarrow>
          map_sum id (Pair AmbiguousSpec) (respond (Num 500) (ambiguousBody lib))
      | Matched op params \<Rightarrow>
          (case validator lib op req params of
             Invalid violations \<Rightarrow>
               map_sum id (Pair ValidationFailed)
                 (validationFail
                    \<lparr>request = req, operation = Some op,
                     validation = Some \<lparr>errors = Some violations\<rparr>\<rparr>)
           | Valid \<Rightarrow>
               map_sum id (Pair Resolved)
                 (resolve lib registry op
                    \<lparr>request = req, operation = Some op,
                     validation = Some \<lparr>errors = None\<rparr>\<rparr>)))"

text \<open>
  The middleware of app.ts, lines 130 to 139:
  \<^verbatim>\<open>api.handleRequest(req, req, res).then(() => { next(); }).catch((e) => { next(e); })\<close>.
  The library's \<^verbatim>\<open>api.handleRequest\<close> is the first argument. The outcome is what was
  written to \<^verbatim>\<open>res\<close>, if anything, and the call of \<^verbatim>\<open>next\<close>.
\<close>

datatype NextCall = Next | NextError fault

definition middleware :: "(Request \<Rightarrow> fault + 'a) \<Rightarrow> Request \<Rightarrow> 'a option \<times> NextCall" where
  "middleware api_handleRequest req =
     (case api_handleRequest req of
        Inr written \<Rightarrow> (Some written, Next)
      | Inl e \<Rightarrow> (None, NextError e))"

section \<open>Mock synthesis\<close>







section \<open>A small API description, for evaluating the definitions\<close>

definition heartbeat_op :: Operation where
  "heartbeat_op =
     \<lparr>operationId = Some ''Heartbeat'', op_method = ''get'', op_path = ''/heartbeat'',
      examples = [(200, JObject [(''status'', JString ''up'')])], default_response = None\<rparr>"

definition users_op :: Operation where
  "users_op =
     \<lparr>operationId = Some ''CreateUser'', op_method = ''post'', op_path = ''/users'',
      examples = [(400, JObject [(''err'', JString ''bad request'')]),
                  (201, JObject [(''id'', JNumber 1)]),
                  (200, JObject [(''id'', JNumber 0)])],
      default_response = None\<rparr>"

definition anonymous_op :: Operation where
  "anonymous_op =
     \<lparr>operationId = None, op_method = ''get'', op_path = ''/anonymous'',
      examples = [(200, JObject [(''ok'', JBool True)])], default_response = None\<rparr>"






definition email_violation :: json where
  "email_violation =
     JObject [(''location'', JString ''body''), (''field'', JString ''email''),
              (''message'', JString ''is required'')]"

text \<open>
  A backend for the three operations: it matches on method and path, rejects the creation
  of a user from an empty body, and mocks an operation by the first of its examples.
\<close>

definition example_mock :: "string \<Rightarrow> js_number \<times> json" where
  "example_mock oid =
     (if oid = ''Heartbeat'' then (Num 200, JObject [(''status'', JString ''up'')])
      else if oid = ''CreateUser'' then (Num 201, JObject [(''id'', JNumber 1)])
      else (Num 200, JObject []))"

definition example_backend :: Backend where
  "example_backend =
     \<lparr>matcher = (\<lambda>req.
         if req_method req = ''get'' \<and> req_path req = ''/heartbeat'' then Matched heartbeat_op []
         else if req_method req = ''post'' \<and> req_path req = ''/users'' then Matched users_op []
         else if req_method req = ''get'' \<and> req_path req = ''/anonymous''
           then Matched anonymous_op []
         else Unmatched),
      validator = (\<lambda>op req params.
         if operationId op = Some ''CreateUser'' \<and> req_body req = Some (JObject [])
         then Invalid [email_violation] else Valid),
      mockResponseForOperation = example_mock,
      ambiguousBody = JObject []\<rparr>"

text \<open>The registry before any call of \<^verbatim>\<open>api.register\<close>.\<close>

definition no_handlers :: "string \<rightharpoonup> Handler" where
  "no_handlers = Map.empty"

definition get_request :: "string \<Rightarrow> Request" where
  "get_request p =
     \<lparr>req_method = ''get'', req_path = p, req_query = [], req_headers = [], req_body = None\<rparr>"

definition post_request :: "string \<Rightarrow> json \<Rightarrow> Request" where
  "post_request p b =
     \<lparr>req_method = ''post'', req_path = p, req_query = [], req_headers = [], req_body = Some b\<rparr>"

text \<open>Two custom handlers: one answers, one throws.\<close>

definition uptime_handler :: Handler where
  "uptime_handler c = Inr \<lparr>status = 200, body = JObject [(''uptime'', JNumber 42)]\<rparr>"

definition failing_handler :: Handler where
  "failing_handler c = Inl (Thrown ''boom'')"

text \<open>The value of \<^verbatim>\<open>JSON.parse\<close> on a few inputs; it throws on every other one.\<close>

definition sample_parse :: "string \<Rightarrow> json option" where
  "sample_parse s =
     (if s = ''null'' then Some JNull
      else if s = ''{}'' then Some (JObject [])
      else if s = ''[]'' then Some (JArray [])
      else if s = ''1'' then Some (JNumber 1)
      else if s = ''true'' then Some (JBool True)
      else None)"

section \<open>The format predicate\<close>

lemma typeof_object_iff:
  "typeof v = ''object'' \<longleftrightarrow> v = JNull \<or> (\<exists>xs. v = JArray xs) \<or> (\<exists>kvs. v = JObject kvs)"
  by (cases v) simp_all

text \<open>
  Claim C10. For every string \<open>s\<close>, the format predicate registered under the name
  \<^verbatim>\<open>JSON\<close> accepts \<open>s\<close> exactly when \<^verbatim>\<open>JSON.parse\<close> succeeds on \<open>s\<close> and the parsed value
  has \<^verbatim>\<open>typeof\<close> \<^verbatim>\<open>"object"\<close>, that is, when it is \<^verbatim>\<open>null\<close>, an array or an object;
  numbers, strings, booleans and unparseable input are rejected.
\<close>

theorem JSON_format_accepts_iff:
  "(JSON_format_validate JSON_parse s \<longleftrightarrow>
      (\<exists>v. JSON_parse s = Some v \<and> typeof v = ''object''))
   \<and> (JSON_format_validate JSON_parse s \<longleftrightarrow>
      (\<exists>v. JSON_parse s = Some v \<and>
           (v = JNull \<or> (\<exists>xs. v = JArray xs) \<or> (\<exists>kvs. v = JObject kvs))))
   \<and> (\<not> JSON_format_validate JSON_parse s \<longleftrightarrow>
      (JSON_parse s = None \<or>
       (\<exists>v. JSON_parse s = Some v \<and>
            ((\<exists>n. v = JNumber n) \<or> (\<exists>t. v = JString t) \<or> (\<exists>b. v = JBool b)))))"
proof -
  have a: "JSON_format_validate JSON_parse s \<longleftrightarrow>
      (\<exists>v. JSON_parse s = Some v \<and> typeof v = ''object'')"
    by (simp add: JSON_format_validate_def split: option.split)
  have b: "\<not> JSON_format_validate JSON_parse s \<longleftrightarrow>
      (JSON_parse s = None \<or>
       (\<exists>v. JSON_parse s = Some v \<and>
            ((\<exists>n. v = JNumber n) \<or> (\<exists>t. v = JString t) \<or> (\<exists>b. v = JBool b))))"
  proof (cases "JSON_parse s")
    case None
    then show ?thesis by (simp add: JSON_format_validate_def)
  next
    case (Some v)
    then show ?thesis by (cases v) (simp_all add: JSON_format_validate_def)
  qed
  from a b show ?thesis by (simp only: typeof_object_iff)
qed

theorem JSON_format_accepts_iff_witness:
  "JSON_format_validate sample_parse ''null'' \<and> JSON_format_validate sample_parse ''{}''
   \<and> JSON_format_validate sample_parse ''[]'' \<and> \<not> JSON_format_validate sample_parse ''1''
   \<and> \<not> JSON_format_validate sample_parse ''true'' \<and> \<not> JSON_format_validate sample_parse ''{''"
  using JSON_format_accepts_iff [of sample_parse "''null''"]
    JSON_format_accepts_iff [of sample_parse "''{}''"]
    JSON_format_accepts_iff [of sample_parse "''[]''"]
    JSON_format_accepts_iff [of sample_parse "''1''"]
    JSON_format_accepts_iff [of sample_parse "''true''"]
    JSON_format_accepts_iff [of sample_parse "''{''"]
  by (simp add: sample_parse_def)

section \<open>Evaluation of the example backend\<close>

lemma example_operationIds:
  "operationId heartbeat_op = Some ''Heartbeat''" "operationId users_op = Some ''CreateUser''"
  "operationId anonymous_op = None"
  by (simp_all add: heartbeat_op_def users_op_def anonymous_op_def)

lemma example_matcher:
  "matcher example_backend (get_request ''/heartbeat'') = Matched heartbeat_op []"
  "matcher example_backend (post_request ''/users'' b) = Matched users_op []"
  "matcher example_backend (get_request ''/anonymous'') = Matched anonymous_op []"
  "matcher example_backend (get_request ''/unknown/path'') = Unmatched"
  by (simp_all add: example_backend_def get_request_def post_request_def)

lemma no_handlers_None: "no_handlers oid = None"
  by (simp add: no_handlers_def)

lemma example_validator:
  "validator example_backend heartbeat_op req params = Valid"
  "validator example_backend anonymous_op req params = Valid"
  "validator example_backend users_op (post_request p (JObject [])) params =
     Invalid [email_violation]"
  "validator example_backend users_op
     (post_request p (JObject [(''email'', JString ''ada@example.org'')])) params = Valid"
  by (simp_all add: example_backend_def example_operationIds post_request_def)

section \<open>Writing a response\<close>


lemma respond_constants:
  "respond (Num 400) b = Inr \<lparr>status = 400, body = b\<rparr>"
  "respond (Num 404) b = Inr \<lparr>status = 404, body = b\<rparr>"
  "respond (Num 500) b = Inr \<lparr>status = 500, body = b\<rparr>"
  "respond (Num 501) b = Inr \<lparr>status = 501, body = b\<rparr>"
  by (simp_all add: respond_def)

lemma respond_not_a_status:
  "respond NaN b = Inl RangeError" "respond (Num 99) b = Inl RangeError"
  "respond (Num (401 / 2)) b = Inl RangeError"
  by (simp_all add: respond_def)

section \<open>The handlers\<close>

text \<open>
  Claim C9. When the handler \<^verbatim>\<open>notImplemented\<close> is reached for an operation that has no
  \<open>operationId\<close> (or an empty one), the response has status 500 and the empty object as its
  body, whatever the backend would mock.
\<close>

theorem notImplemented_without_operationId:
  assumes "operation c = Some op"
    and "operationId op = None \<or> operationId op = Some []"
  shows "notImplemented mock c = Inr \<lparr>status = 500, body = JObject []\<rparr>"
  using assms by (auto simp add: notImplemented_def respond_constants)

theorem notImplemented_without_operationId_witness:
  "notImplemented example_mock
     \<lparr>request = get_request ''/anonymous'', operation = Some anonymous_op,
      validation = Some \<lparr>errors = None\<rparr>\<rparr>
   = Inr \<lparr>status = 500, body = JObject []\<rparr>"
  by (rule notImplemented_without_operationId [where op = anonymous_op])
     (simp_all add: example_operationIds)

text \<open>
  Claim C3. The handler \<^verbatim>\<open>notFound\<close>, which the backend calls for a request whose method
  and path match no operation, answers with status 404 and the body
  \<^verbatim>\<open>{"err": "not found"}\<close>, whatever the request is.
\<close>

theorem notFound_is_404:
  "notFound c = Inr \<lparr>status = 404, body = JObject [(''err'', JString ''not found'')]\<rparr>"
  by (simp add: notFound_def respond_constants)

theorem notFound_is_404_witness:
  "notFound \<lparr>request = get_request ''/unknown/path'', operation = None, validation = None\<rparr> =
     Inr \<lparr>status = 404, body = JObject [(''err'', JString ''not found'')]\<rparr>"
  using notFound_is_404
    [of "\<lparr>request = get_request ''/unknown/path'', operation = None, validation = None\<rparr>"]
  by simp

text \<open>
  Claim C2. The handler \<^verbatim>\<open>validationFail\<close>, which the backend calls for a request on which
  the validator returns \<open>Invalid\<close>, with the violations in \<^verbatim>\<open>c.validation.errors\<close>,
  answers with status 400 and the body \<^verbatim>\<open>{"err": violations}\<close>.
\<close>

theorem validation_failure_is_400:
  assumes "validation c = Some \<lparr>errors = Some violations\<rparr>"
  shows "validationFail c =
           Inr \<lparr>status = 400, body = JObject [(''err'', JArray violations)]\<rparr>"
  using assms by (simp add: validationFail_def respond_constants)

theorem validation_failure_is_400_witness:
  "validationFail
     \<lparr>request = post_request ''/users'' (JObject []), operation = Some users_op,
      validation = Some \<lparr>errors = Some [email_violation]\<rparr>\<rparr> =
     Inr \<lparr>status = 400, body = JObject [(''err'', JArray [email_violation])]\<rparr>"
  by (rule validation_failure_is_400) simp

section \<open>Mock fallback\<close>





text \<open>
  The handler passes the backend's status and mock to the response as they are; the write
  rejects on a status that the response cannot carry.
\<close>

lemma notImplemented_passes_mock_through:
  assumes "operation c = Some op" and "operationId op = Some oid" and "oid \<noteq> []"
  shows "notImplemented mock c = respond (fst (mock oid)) (snd (mock oid))"
  using assms by (simp add: notImplemented_def split: prod.split)

lemma notImplemented_rejects_NaN:
  assumes "operation c = Some op" and "operationId op = Some oid" and "oid \<noteq> []"
    and "fst (mock oid) = NaN"
  shows "notImplemented mock c = Inl RangeError"
  using assms by (simp add: notImplemented_passes_mock_through respond_not_a_status)





section \<open>The handlers behind the dispatcher\<close>

text \<open>
  With the dispatch of section 4.6 of the specification, the responses of the handlers are
  the terminal outcomes of the requests: no match ends in \<open>NotFound\<close> with the response
  of \<^verbatim>\<open>notFound\<close>, an invalid request in \<open>ValidationFailed\<close> with the response of
  \<^verbatim>\<open>validationFail\<close>, and a valid request without a custom handler in \<open>Resolved\<close> with
  the response of \<^verbatim>\<open>notImplemented\<close>.
\<close>

lemma dispatch_Unmatched:
  assumes "matcher lib req = Unmatched"
  shows "handleRequest lib registry req =
           Inr (NotFound, \<lparr>status = 404, body = JObject [(''err'', JString ''not found'')]\<rparr>)"
  using assms by (simp add: handleRequest_def notFound_def respond_constants)

lemma dispatch_Invalid:
  assumes "matcher lib req = Matched op params"
    and "validator lib op req params = Invalid violations"
  shows "handleRequest lib registry req =
           Inr (ValidationFailed,
                \<lparr>status = 400, body = JObject [(''err'', JArray violations)]\<rparr>)"
  using assms by (simp add: handleRequest_def validationFail_def respond_constants)

lemma dispatch_mock_fallback:
  assumes "matcher lib req = Matched op params"
    and "validator lib op req params = Valid"
    and "Option.bind (operationId op) registry = None"
  shows "handleRequest lib registry req =
           map_sum id (Pair Resolved)
             (notImplemented (mockResponseForOperation lib)
                \<lparr>request = req, operation = Some op, validation = Some \<lparr>errors = None\<rparr>\<rparr>)"
  using assms by (simp add: handleRequest_def resolve_def)

lemma example_dispatch:
  "handleRequest example_backend no_handlers (get_request ''/unknown/path'') =
     Inr (NotFound, \<lparr>status = 404, body = JObject [(''err'', JString ''not found'')]\<rparr>)"
  "handleRequest example_backend no_handlers (post_request ''/users'' (JObject [])) =
     Inr (ValidationFailed,
          \<lparr>status = 400, body = JObject [(''err'', JArray [email_violation])]\<rparr>)"
  "handleRequest example_backend no_handlers (get_request ''/heartbeat'') =
     Inr (Resolved, \<lparr>status = 200, body = JObject [(''status'', JString ''up'')]\<rparr>)"
  by (simp_all add: handleRequest_def resolve_def notFound_def validationFail_def
        notImplemented_def example_matcher example_validator example_operationIds
        no_handlers_None respond_constants)
     (simp_all add: example_backend_def example_mock_def respond_def)

text \<open>
  Claim C4. When the registry has a custom handler for the \<open>operationId\<close> of the matched
  operation, the resolver calls it with the context of the validated request and its
  result, response or fault, is the result of the request unchanged, whatever examples the
  operation declares and whatever the backend would mock.
\<close>

theorem custom_handler_verbatim:
  assumes "operationId op = Some oid" and "registry oid = Some h"
  shows "resolve lib registry op c = h c
       \<and> (matcher lib req = Matched op params \<and> validator lib op req params = Valid \<longrightarrow>
            handleRequest lib registry req =
              map_sum id (Pair Resolved)
                (h \<lparr>request = req, operation = Some op,
                    validation = Some \<lparr>errors = None\<rparr>\<rparr>))"
  using assms by (simp add: handleRequest_def resolve_def)

theorem custom_handler_verbatim_witness:
  "handleRequest example_backend (app_registry uptime_handler) (get_request ''/heartbeat'') =
     Inr (Resolved, \<lparr>status = 200, body = JObject [(''uptime'', JNumber 42)]\<rparr>)
   \<and> examples heartbeat_op = [(200, JObject [(''status'', JString ''up'')])]"
proof -
  have "app_registry uptime_handler ''Heartbeat'' = Some uptime_handler"
    by (simp add: app_registry_def register_def)
  from custom_handler_verbatim [where op = heartbeat_op and oid = "''Heartbeat''"
      and registry = "app_registry uptime_handler" and h = uptime_handler
      and lib = example_backend and req = "get_request ''/heartbeat''" and params = "[]",
      OF example_operationIds(1) this]
  have "handleRequest example_backend (app_registry uptime_handler) (get_request ''/heartbeat'') =
     map_sum id (Pair Resolved)
       (uptime_handler \<lparr>request = get_request ''/heartbeat'', operation = Some heartbeat_op,
          validation = Some \<lparr>errors = None\<rparr>\<rparr>)"
    by (simp add: example_matcher example_validator)
  then show ?thesis by (simp add: uptime_handler_def heartbeat_op_def)
qed

text \<open>
  Claim C8. When the custom handler of the matched operation throws or rejects, the request
  has no dispatcher state and no response: the fault is the result of \<open>handleRequest\<close>.
  And whenever \<^verbatim>\<open>api.handleRequest\<close> rejects, the middleware writes nothing and hands the
  fault to the transport with \<^verbatim>\<open>next(e)\<close>.
\<close>

theorem handler_fault_propagates:
  "(api_handleRequest req = Inl e \<longrightarrow>
      middleware api_handleRequest req = (None, NextError e))
   \<and> (matcher lib req = Matched op params \<and> validator lib op req params = Valid \<and>
      operationId op = Some oid \<and> registry oid = Some h \<and>
      h \<lparr>request = req, operation = Some op, validation = Some \<lparr>errors = None\<rparr>\<rparr> = Inl e \<longrightarrow>
        handleRequest lib registry req = Inl e \<and>
        middleware (handleRequest lib registry) req = (None, NextError e))"
  by (simp add: middleware_def handleRequest_def resolve_def)

theorem handler_fault_propagates_witness:
  "handleRequest example_backend (app_registry failing_handler) (get_request ''/heartbeat'') =
     Inl (Thrown ''boom'')
   \<and> middleware (handleRequest example_backend (app_registry failing_handler))
       (get_request ''/heartbeat'') =
     (None, NextError (Thrown ''boom''))"
proof -
  have r: "app_registry failing_handler ''Heartbeat'' = Some failing_handler"
    by (simp add: app_registry_def register_def)
  have f: "failing_handler c = Inl (Thrown ''boom'')" for c
    by (simp add: failing_handler_def)
  from handler_fault_propagates [where e = "Thrown ''boom''" and lib = example_backend
      and req = "get_request ''/heartbeat''" and op = heartbeat_op and params = "[]"
      and oid = "''Heartbeat''" and registry = "app_registry failing_handler"
      and h = failing_handler, THEN conjunct2]
  show ?thesis
    using r f example_matcher(1) example_validator(1) example_operationIds(1) by blast
qed

end
